theory Spec2Isabelle
  imports Main
begin

section \<open>Authentication handlers of passwall-server (internal/api/auth.go)\<close>

text \<open>
  The handlers of \<^verbatim>\<open>internal/api/auth.go\<close> are embedded as functions from a request
  and a world to a response and a world. The world holds what the handlers mutate or send:
  the process-wide verification cache \<^verbatim>\<open>c\<close> and the ordered trace of the effectful calls
  made (cache writes, mails, user creation and deletion). Everything the handlers only call
  into (the user and subscription stores, the mailer, the JSON decoder, the payload
  validator, the token functions of package \<^verbatim>\<open>app\<close>, the JWT parser, the random generator)
  is a field of the record \<open>env\<close>: the outcome of each call as a function of its arguments.
  Logging calls are left out: they return nothing and change neither cache nor response.
  Expiry of cache entries is not modelled: \<open>cache w\<close> is the set of live entries at the time
  of the call.
\<close>

subsection \<open>HTTP status codes and the messages declared in the file\<close>

abbreviation StatusOK :: nat where "StatusOK \<equiv> 200"
abbreviation StatusBadRequest :: nat where "StatusBadRequest \<equiv> 400"
abbreviation StatusUnauthorized :: nat where "StatusUnauthorized \<equiv> 401"
abbreviation StatusNotFound :: nat where "StatusNotFound \<equiv> 404"
abbreviation StatusInternalServerError :: nat where "StatusInternalServerError \<equiv> 500"

definition invalidUser :: string where "invalidUser = ''Invalid user''"
definition invalidToken :: string where "invalidToken = ''Token is expired or not valid!''"
definition noToken :: string where "noToken = ''Token could not found! ''"
definition tokenCreateErr :: string where "tokenCreateErr = ''Token could not be created''"
definition signupSuccess :: string where "signupSuccess = ''User created successfully''"
definition verifySuccess :: string where "verifySuccess = ''Email verified successfully''"
definition codeSuccess :: string where "codeSuccess = ''Code created successfully''"

subsection \<open>Data\<close>

record User =
  user_ID :: nat
  user_UUID :: string
  user_Name :: string
  user_Email :: string
  user_Schema :: string

record Subscription =
  sub_Email :: string

record AuthEmail =
  ae_Email :: string

record AuthLoginDTO =
  login_Email :: string
  login_MasterPassword :: string

text \<open>Of \<^verbatim>\<open>model.UserSignup\<close> and \<^verbatim>\<open>model.UserDTO\<close> the handlers read the email only.\<close>

record UserSignup =
  signup_Email :: string

record UserDTO =
  dto_Email :: string

record SubscriptionAuthDTO =
  sadto_Email :: string

record AuthLoginResponse =
  resp_Type :: string
  resp_TransmissionKey :: string
  resp_UserDTO :: UserDTO
  resp_SubscriptionAuthDTO :: "SubscriptionAuthDTO option"

record Cookie =
  cookie_Name :: string
  cookie_Value :: string

text \<open>A cached value is an \<^verbatim>\<open>interface{}\<close>: a string, or a value of another dynamic type.\<close>

datatype cache_value = StringValue string | OtherValue

text \<open>The value of a JWT claim, and the dynamic type of a token's claims.\<close>

datatype claim_value = ClaimString string | ClaimOther

datatype token_claims = MapClaims "string \<Rightarrow> claim_value option" | OtherClaims

record Token =
  token_Claims :: token_claims

text \<open>\<^verbatim>\<open>app.Claims\<close> as filled by the parser, with the token's \<^verbatim>\<open>Valid\<close> flag.\<close>

record Claims =
  claims_UserUUID :: string

record ParsedToken =
  tkn_Valid :: bool
  tkn_claims :: Claims

text \<open>
  The errors of the JWT library as the handler can tell them apart: the sentinel
  \<^verbatim>\<open>jwt.ErrSignatureInvalid\<close>, with which RefreshToken compares, and a
  \<^verbatim>\<open>*jwt.ValidationError\<close> with its bit field \<^verbatim>\<open>Errors\<close>. The parser of golang-jwt v4
  reports every failure as a \<^verbatim>\<open>*jwt.ValidationError\<close>: the cause (for a signature that does
  not verify, the sentinel) is kept inside it, where the handler does not look.
\<close>

datatype jwt_error = ErrSignatureInvalid | ValidationError nat

abbreviation ValidationErrorMalformed :: nat where "ValidationErrorMalformed \<equiv> 1"
abbreviation ValidationErrorSignatureInvalid :: nat where "ValidationErrorSignatureInvalid \<equiv> 4"
abbreviation ValidationErrorExpired :: nat where "ValidationErrorExpired \<equiv> 16"

text \<open>
  The outcome of a helper that is not part of these sources and receives a pointer that
  may be nil: it returns, or it panics.
\<close>

datatype 'a returned = Panics | Returns 'a

datatype cookie_error = ErrNoCookie | OtherCookieError

text \<open>
  The error of the payload validator: the handlers assert it to be
  \<^verbatim>\<open>validator.ValidationErrors\<close> without a check.
\<close>

datatype validation_error = ValidationErrors "string list" | OtherValidationError

text \<open>
  The outcome of decoding a JSON body into a pointer: an error, the literal \<^verbatim>\<open>null\<close>
  (which sets the pointer to nil), or a value.
\<close>

datatype 'a decoded_ptr = DecodeError | DecodedNil | Decoded 'a

datatype json_body =
    Response nat string string
  | UserDTOTable User

datatype response =
    RespondWithError nat string
  | RespondWithErrors nat string "string list"
  | RespondWithJSON nat json_body
  | RespondWithToken nat Cookie AuthLoginResponse
  | WriteHeader nat
  | Panic

datatype effect =
    Call_Set string cache_value
  | Call_SendMail string string string string
  | Call_CreateUser UserDTO
  | Call_Delete nat string

record world =
  cache :: "string \<Rightarrow> cache_value option"
  trace :: "effect list"

record request =
  Body :: string
  Vars :: "string \<Rightarrow> string option"
  Form :: "string \<Rightarrow> string option"
  Header :: "string \<Rightarrow> string option"
  Cookies :: "string \<Rightarrow> cookie_error + Cookie"

text \<open>
  The collaborators. A Go result \<^verbatim>\<open>(value, error)\<close> on which the handler returns when the
  error is set is a sum, \<open>Inl\<close> the error text. The subscription lookup keeps both
  components, since the handlers go on to use the pointer whatever the error was.
  \<open>Intn n\<close> is the value \<^verbatim>\<open>rand.Intn(n)\<close> returns after the reseeding. \<open>ParseWithClaims\<close>
  takes the token string and the key that the key function hands out. The three strings
  \<open>Success\<close>, \<open>InvalidRequestPayload\<close> and \<open>InvalidJSON\<close> are declared elsewhere in the
  package, and the two \<open>email_\<close> fields are read from the configuration.
  \<^verbatim>\<open>model.ToSubscriptionAuthDTO\<close> receives the subscription pointer, nil or not, also
  after a failed lookup: whether it returns on it is the environment's to say.
\<close>

record env =
  Success :: string
  InvalidRequestPayload :: string
  InvalidJSON :: string
  jwtKey :: string
  email_fromName :: string
  email_fromEmail :: string
  DecodeAuthEmail :: "string \<Rightarrow> AuthEmail option"
  DecodeUserSignup :: "string \<Rightarrow> UserSignup decoded_ptr"
  DecodeAuthLoginDTO :: "string \<Rightarrow> AuthLoginDTO option"
  ValidateUserSignup :: "UserSignup \<Rightarrow> validation_error option"
  ValidateAuthLoginDTO :: "AuthLoginDTO \<Rightarrow> validation_error option"
  GetErrors :: "string list \<Rightarrow> string list"
  Users_FindByEmail :: "string \<Rightarrow> string + User"
  Users_FindByCredentials :: "string \<Rightarrow> string \<Rightarrow> string + User"
  Users_FindByUUID :: "string \<Rightarrow> string + User"
  Users_Delete :: "nat \<Rightarrow> string \<Rightarrow> string option"
  Subscriptions_FindByEmail :: "string \<Rightarrow> Subscription option \<times> string option"
  CreateUser :: "UserDTO \<Rightarrow> string + User"
  SendMail :: "string \<Rightarrow> string \<Rightarrow> string \<Rightarrow> string \<Rightarrow> string option"
  CreateToken :: "User \<Rightarrow> string + Cookie \<times> string"
  RefreshTokenWithClaims :: "User \<Rightarrow> Claims \<Rightarrow> string + Cookie"
  TokenValid :: "string \<Rightarrow> string + Token"
  ParseWithClaims :: "string \<Rightarrow> string \<Rightarrow> jwt_error + ParsedToken"
  ConvertUserDTO :: "UserSignup \<Rightarrow> UserDTO"
  ToUserDTO :: "User \<Rightarrow> UserDTO"
  ToSubscriptionAuthDTO :: "Subscription option \<Rightarrow> SubscriptionAuthDTO option returned"
  Intn :: "int \<Rightarrow> int"

subsection \<open>Library functions the handlers call\<close>

text \<open>
  \<^verbatim>\<open>strconv.Itoa\<close>: the decimal digits of an integer, most significant first, with a
  leading minus sign for a negative one.
\<close>

definition digit_char :: "nat \<Rightarrow> char" where
  "digit_char d = ''0123456789'' ! d"

fun format_digits :: "nat \<Rightarrow> string" where
  "format_digits n =
     (if n < 10 then [digit_char n] else format_digits (n div 10) @ [digit_char (n mod 10)])"

declare format_digits.simps [simp del]

definition Itoa :: "int \<Rightarrow> string" where
  "Itoa i = (if i < 0 then CHR ''-'' # format_digits (nat (- i)) else format_digits (nat i))"

text \<open>
  \<^verbatim>\<open>strings.Split(s, sep)\<close> for a separator of one character: the pieces between the
  occurrences of \<open>sep\<close>, one more than there are occurrences.
\<close>

fun Split :: "string \<Rightarrow> char \<Rightarrow> string list" where
  "Split [] sep = [[]]"
| "Split (x # xs) sep =
     (if x = sep then [] # Split xs sep
      else (case Split xs sep of [] \<Rightarrow> [[x]] | p # ps \<Rightarrow> (x # p) # ps))"

text \<open>
  Reading a Go \<^verbatim>\<open>map[string]string\<close>, a form value or a header: the empty string when
  the key is absent.
\<close>

definition get_or_empty :: "(string \<Rightarrow> string option) \<Rightarrow> string \<Rightarrow> string" where
  "get_or_empty m k = (case m k of None \<Rightarrow> [] | Some v \<Rightarrow> v)"

subsection \<open>The cache and the trace\<close>

definition c_Get :: "world \<Rightarrow> string \<Rightarrow> cache_value option" where
  "c_Get w k = cache w k"

definition c_Set :: "string \<Rightarrow> cache_value \<Rightarrow> world \<Rightarrow> world" where
  "c_Set k v w = w\<lparr>cache := (cache w)(k \<mapsto> v), trace := trace w @ [Call_Set k v]\<rparr>"

definition call :: "effect \<Rightarrow> world \<Rightarrow> world" where
  "call e w = w\<lparr>trace := trace w @ [e]\<rparr>"

subsection \<open>isMailVerified and notifyAdminEmail\<close>

datatype verify_error = NotInCache | NotAString | NoMatch

definition isMailVerified :: "world \<Rightarrow> string \<Rightarrow> verify_error option" where
  "isMailVerified w email =
     (case c_Get w email of
        None \<Rightarrow> Some NotInCache
      | Some OtherValue \<Rightarrow> Some NotAString
      | Some (StringValue verified) \<Rightarrow>
          if verified \<noteq> ''verified'' then Some NoMatch else None)"

definition notifyAdminEmail :: "env \<Rightarrow> User \<Rightarrow> world \<Rightarrow> world" where
  "notifyAdminEmail s user w =
     (let subject = ''PassWall New User Subscription'';
          body0 = ''PassWall has new a user. User details:'' @ [CHR 0x0A, CHR 0x0A];
          body1 = body0 @ ''Name: '' @ user_Name user @ [CHR 0x0A];
          body2 = body1 @ ''Email: '' @ user_Email user @ [CHR 0x0A]
      in call (Call_SendMail (email_fromName s) (email_fromEmail s) subject body2) w)"

subsection \<open>The code-request handlers\<close>

definition CreateCode :: "env \<Rightarrow> request \<Rightarrow> world \<Rightarrow> response \<times> world" where
  "CreateCode s r w =
     (case DecodeAuthEmail s (Body r) of
        None \<Rightarrow> (RespondWithError StatusBadRequest (InvalidRequestPayload s), w)
      | Some signup \<Rightarrow>
          (case Users_FindByEmail s (ae_Email signup) of
             Inr _ \<Rightarrow> (RespondWithError StatusBadRequest ''User couldn't created!'', w)
           | Inl _ \<Rightarrow>
               (let min = 100000;
                    max = 999999;
                    code = Itoa (Intn s (max - min + 1) + min);
                    w1 = c_Set (ae_Email signup) (StringValue code) w;
                    subject = ''Passwall Email Verification'';
                    body = ''Passwall verification code: '' @ code;
                    w2 = call (Call_SendMail ''Passwall Verification Code''
                                 (ae_Email signup) subject body) w1
                in (case SendMail s ''Passwall Verification Code''
                           (ae_Email signup) subject body of
                      Some err \<Rightarrow> (RespondWithError StatusBadRequest ''Couldn't send email'', w2)
                    | None \<Rightarrow>
                        (RespondWithJSON StatusOK (Response StatusOK (Success s) codeSuccess),
                         w2)))))"

definition CreateDeleteCode :: "env \<Rightarrow> request \<Rightarrow> world \<Rightarrow> response \<times> world" where
  "CreateDeleteCode s r w =
     (case DecodeAuthEmail s (Body r) of
        None \<Rightarrow> (RespondWithError StatusBadRequest (InvalidRequestPayload s), w)
      | Some signup \<Rightarrow>
          (case Users_FindByEmail s (ae_Email signup) of
             Inl _ \<Rightarrow> (RespondWithError StatusBadRequest ''User couldn't be found!'', w)
           | Inr _ \<Rightarrow>
               (let min = 100000;
                    max = 999999;
                    code = Itoa (Intn s (max - min + 1) + min);
                    w1 = c_Set (ae_Email signup) (StringValue code) w;
                    subject = ''Passwall User Deletion Verification'';
                    body = ''Passwall user deletion code: '' @ code;
                    w2 = call (Call_SendMail ''Passwall user deletion Code''
                                 (ae_Email signup) subject body) w1
                in (case SendMail s ''Passwall user deletion Code''
                           (ae_Email signup) subject body of
                      Some err \<Rightarrow> (RespondWithError StatusBadRequest ''Couldn't send email'', w2)
                    | None \<Rightarrow>
                        (RespondWithJSON StatusOK (Response StatusOK (Success s) codeSuccess),
                         w2)))))"

subsection \<open>VerifyCode\<close>

definition VerifyCode :: "env \<Rightarrow> request \<Rightarrow> world \<Rightarrow> response \<times> world" where
  "VerifyCode s r w =
     (let userCode = get_or_empty (Vars r) ''code'';
          email = get_or_empty (Form r) ''email''
      in (case c_Get w email of
            None \<Rightarrow> (RespondWithError StatusBadRequest ''Code couldn't found!'', w)
          | Some OtherValue \<Rightarrow> (RespondWithError StatusInternalServerError ''Server error!'', w)
          | Some (StringValue confirmationCode) \<Rightarrow>
              if userCode \<noteq> confirmationCode
              then (RespondWithError StatusBadRequest ''Code doesn't match!'', w)
              else (RespondWithJSON StatusOK (Response StatusOK (Success s) verifySuccess),
                    c_Set email (StringValue ''verified'') w)))"

subsection \<open>Signup and RecoverDelete\<close>

definition Signup :: "env \<Rightarrow> request \<Rightarrow> world \<Rightarrow> response \<times> world" where
  "Signup s r w =
     (case DecodeUserSignup s (Body r) of
        DecodeError \<Rightarrow> (RespondWithError StatusBadRequest ''Invalid request payload'', w)
      | DecodedNil \<Rightarrow> (Panic, w)
      | Decoded userSignup \<Rightarrow>
          (case isMailVerified w (signup_Email userSignup) of
             Some err \<Rightarrow> (RespondWithError StatusUnauthorized ''Email is not verified'', w)
           | None \<Rightarrow>
               (case ValidateUserSignup s userSignup of
                  Some OtherValidationError \<Rightarrow> (Panic, w)
                | Some (ValidationErrors errs) \<Rightarrow>
                    (RespondWithErrors StatusBadRequest (InvalidRequestPayload s)
                       (GetErrors s errs), w)
                | None \<Rightarrow>
                    (let userDTO = ConvertUserDTO s userSignup
                     in (case Users_FindByEmail s (dto_Email userDTO) of
                           Inr _ \<Rightarrow>
                             (RespondWithError StatusBadRequest ''User couldn't created!'', w)
                         | Inl _ \<Rightarrow>
                             (let w1 = call (Call_CreateUser userDTO) w
                              in (case CreateUser s userDTO of
                                    Inl err \<Rightarrow>
                                      (RespondWithError StatusInternalServerError err, w1)
                                  | Inr createdUser \<Rightarrow>
                                      (RespondWithJSON StatusOK
                                         (Response StatusOK (Success s) signupSuccess),
                                       notifyAdminEmail s createdUser w1))))))))"

definition RecoverDelete :: "env \<Rightarrow> request \<Rightarrow> world \<Rightarrow> response \<times> world" where
  "RecoverDelete s r w =
     (let email = get_or_empty (Vars r) ''email''
      in (case isMailVerified w email of
            Some err \<Rightarrow> (RespondWithError StatusUnauthorized ''Email is not verified'', w)
          | None \<Rightarrow>
              (case Users_FindByEmail s email of
                 Inl err \<Rightarrow> (RespondWithError StatusNotFound err, w)
               | Inr user \<Rightarrow>
                   (let w1 = call (Call_Delete (user_ID user) (user_Schema user)) w
                    in (case Users_Delete s (user_ID user) (user_Schema user) of
                          Some err \<Rightarrow> (RespondWithError StatusNotFound err, w1)
                        | None \<Rightarrow>
                            (RespondWithJSON StatusOK
                               (Response StatusOK ''Success'' ''User deleted successfully!''),
                             w1))))))"

subsection \<open>Signin and RefreshToken\<close>


definition RefreshToken :: "env \<Rightarrow> request \<Rightarrow> world \<Rightarrow> response \<times> world" where
  "RefreshToken s r w =
     (case Cookies r ''passwall_token'' of
        Inl err \<Rightarrow>
          if err = ErrNoCookie then (WriteHeader StatusUnauthorized, w)
          else (WriteHeader StatusBadRequest, w)
      | Inr c \<Rightarrow>
          (let tknStr = cookie_Value c
           in (case ParseWithClaims s tknStr (jwtKey s) of
                 Inl err \<Rightarrow>
                   if err = ErrSignatureInvalid then (WriteHeader StatusUnauthorized, w)
                   else (WriteHeader StatusBadRequest, w)
               | Inr tkn \<Rightarrow>
                   if \<not> tkn_Valid tkn then (WriteHeader StatusUnauthorized, w)
                   else
                     (let claims = tkn_claims tkn
                      in (case Users_FindByUUID s (claims_UserUUID claims) of
                            Inl err \<Rightarrow> (RespondWithError StatusUnauthorized invalidUser, w)
                          | Inr user \<Rightarrow>
                              (let (subscription, err) =
                                     Subscriptions_FindByEmail s (user_Email user);
                                   subscriptionType =
                                     (if err \<noteq> None then ''free'' else ''pro'')
                               in (case RefreshTokenWithClaims s user claims of
                                     Inl err \<Rightarrow>
                                       (RespondWithError StatusInternalServerError
                                          tokenCreateErr, w)
                                   | Inr cookieWithToken \<Rightarrow>
                                       (case ToSubscriptionAuthDTO s subscription of
                                          Panics \<Rightarrow> (Panic, w)
                                        | Returns subscriptionAuthDTO \<Rightarrow>
                                            (RespondWithToken StatusOK cookieWithToken
                                               \<lparr>resp_Type = subscriptionType,
                                                resp_TransmissionKey = [],
                                                resp_UserDTO = ToUserDTO s user,
                                                resp_SubscriptionAuthDTO =
                                                  subscriptionAuthDTO\<rparr>,
                                             w)))))))))"

subsection \<open>CheckToken\<close>

definition CheckToken :: "env \<Rightarrow> request \<Rightarrow> world \<Rightarrow> response \<times> world" where
  "CheckToken s r w =
     (let bearerToken = get_or_empty (Header r) ''Authorization'';
          strArr = Split bearerToken CHR '' '';
          tokenStr = (if length strArr = 2 then strArr ! 1 else [])
      in if tokenStr = [] then (RespondWithError StatusUnauthorized noToken, w)
         else
           (case TokenValid s tokenStr of
              Inl err \<Rightarrow> (RespondWithError StatusUnauthorized invalidToken, w)
            | Inr token \<Rightarrow>
                (case token_Claims token of
                   OtherClaims \<Rightarrow> (Panic, w)
                 | MapClaims claims \<Rightarrow>
                     (case claims ''user_uuid'' of
                        None \<Rightarrow> (Panic, w)
                      | Some ClaimOther \<Rightarrow> (Panic, w)
                      | Some (ClaimString userUUID) \<Rightarrow>
                          (case Users_FindByUUID s userUUID of
                             Inl err \<Rightarrow> (RespondWithError StatusUnauthorized invalidUser, w)
                           | Inr user \<Rightarrow>
                               (RespondWithJSON StatusOK (UserDTOTable user), w))))))"

subsection \<open>Reading a response and a trace\<close>

text \<open>The HTTP status a response carries; a panic writes none.\<close>

fun status_code :: "response \<Rightarrow> nat option" where
  "status_code (RespondWithError c m) = Some c"
| "status_code (RespondWithErrors c m errs) = Some c"
| "status_code (RespondWithJSON c b) = Some c"
| "status_code (RespondWithToken c ck b) = Some c"
| "status_code (WriteHeader c) = Some c"
| "status_code Panic = None"


definition server_error_class :: "nat \<Rightarrow> bool" where
  "server_error_class c = (500 \<le> c \<and> c < 600)"

fun is_CreateUser :: "effect \<Rightarrow> bool" where
  "is_CreateUser (Call_CreateUser d) = True"
| "is_CreateUser _ = False"

fun is_Delete :: "effect \<Rightarrow> bool" where
  "is_Delete (Call_Delete i sc) = True"
| "is_Delete _ = False"


subsection \<open>A sample environment\<close>

text \<open>
  One concrete environment, request and world, on which the theorems below are
  instantiated. The user \<open>b@x.com\<close> is registered, \<open>a@x.com\<close> is not; the toy decoders take
  the body to be the email itself; the generator draws 23456; the mailer succeeds; the
  subscription store finds nothing and says so with an error; the token \<open>forged\<close> is one
  whose signature does not verify, \<open>expired\<close> one past its expiry.
\<close>

definition user_b :: User where
  "user_b = \<lparr>user_ID = 7, user_UUID = ''uuid-b'', user_Name = ''B'', user_Email = ''b@x.com'',
             user_Schema = ''user7''\<rparr>"

definition env0 :: env where
  "env0 =
     \<lparr>Success = ''Success'',
      InvalidRequestPayload = ''Invalid request payload'',
      InvalidJSON = ''Invalid json provided'',
      jwtKey = ''secret'',
      email_fromName = ''PassWall'',
      email_fromEmail = ''admin@x.com'',
      DecodeAuthEmail = (\<lambda>b. Some \<lparr>ae_Email = b\<rparr>),
      DecodeUserSignup = (\<lambda>b. Decoded \<lparr>signup_Email = b\<rparr>),
      DecodeAuthLoginDTO = (\<lambda>b. Some \<lparr>login_Email = b, login_MasterPassword = ''pw''\<rparr>),
      ValidateUserSignup = (\<lambda>u. None),
      ValidateAuthLoginDTO = (\<lambda>l. None),
      GetErrors = (\<lambda>errs. errs),
      Users_FindByEmail = (\<lambda>e. if e = ''b@x.com'' then Inr user_b else Inl ''record not found''),
      Users_FindByCredentials =
        (\<lambda>e p. if e = ''b@x.com'' \<and> p = ''pw'' then Inr user_b else Inl ''record not found''),
      Users_FindByUUID = (\<lambda>u. if u = ''uuid-b'' then Inr user_b else Inl ''record not found''),
      Users_Delete = (\<lambda>i sc. None),
      Subscriptions_FindByEmail = (\<lambda>e. (None, Some ''record not found'')),
      CreateUser =
        (\<lambda>d. Inr \<lparr>user_ID = 8, user_UUID = ''uuid-a'', user_Name = ''A'',
                   user_Email = dto_Email d, user_Schema = ''user8''\<rparr>),
      SendMail = (\<lambda>fromName to subject body. None),
      CreateToken =
        (\<lambda>u. Inr (\<lparr>cookie_Name = ''passwall_token'', cookie_Value = ''t1''\<rparr>, ''key'')),
      RefreshTokenWithClaims =
        (\<lambda>u c. Inr \<lparr>cookie_Name = ''passwall_token'', cookie_Value = ''t2''\<rparr>),
      TokenValid =
        (\<lambda>t. if t = ''good''
              then Inr \<lparr>token_Claims =
                          MapClaims ((\<lambda>k. None)(''user_uuid'' \<mapsto> ClaimString ''uuid-b''))\<rparr>
              else if t = ''nouuid'' then Inr \<lparr>token_Claims = MapClaims (\<lambda>k. None)\<rparr>
              else Inl ''token invalid''),
      ParseWithClaims =
        (\<lambda>t k. if t = ''t1''
                then Inr \<lparr>tkn_Valid = True, tkn_claims = \<lparr>claims_UserUUID = ''uuid-b''\<rparr>\<rparr>
                else if t = ''forged''
                then Inl (ValidationError ValidationErrorSignatureInvalid)
                else if t = ''expired'' then Inl (ValidationError ValidationErrorExpired)
                else if t = ''ghost''
                then Inr \<lparr>tkn_Valid = True, tkn_claims = \<lparr>claims_UserUUID = ''uuid-z''\<rparr>\<rparr>
                else Inl (ValidationError ValidationErrorMalformed)),
      ConvertUserDTO = (\<lambda>u. \<lparr>dto_Email = signup_Email u\<rparr>),
      ToUserDTO = (\<lambda>u. \<lparr>dto_Email = user_Email u\<rparr>),
      ToSubscriptionAuthDTO =
        (\<lambda>sb. Returns (map_option (\<lambda>sb. \<lparr>sadto_Email = sub_Email sb\<rparr>) sb)),
      Intn = (\<lambda>n. 23456)\<rparr>"

definition req0 :: "string \<Rightarrow> request" where
  "req0 b =
     \<lparr>Body = b, Vars = (\<lambda>k. None), Form = (\<lambda>k. None), Header = (\<lambda>k. None),
      Cookies = (\<lambda>k. Inl ErrNoCookie)\<rparr>"

definition world0 :: world where
  "world0 = \<lparr>cache = (\<lambda>k. None), trace = []\<rparr>"

text \<open>A world whose cache holds one string, and requests that carry one item each.\<close>

definition world_with :: "string \<Rightarrow> string \<Rightarrow> world" where
  "world_with email v = \<lparr>cache = (\<lambda>k. None)(email \<mapsto> StringValue v), trace = []\<rparr>"

definition req_verify :: "string \<Rightarrow> string \<Rightarrow> request" where
  "req_verify email code =
     \<lparr>Body = [], Vars = (\<lambda>k. None)(''code'' \<mapsto> code), Form = (\<lambda>k. None)(''email'' \<mapsto> email),
      Header = (\<lambda>k. None), Cookies = (\<lambda>k. Inl ErrNoCookie)\<rparr>"

definition req_delete :: "string \<Rightarrow> request" where
  "req_delete email =
     \<lparr>Body = [], Vars = (\<lambda>k. None)(''email'' \<mapsto> email), Form = (\<lambda>k. None),
      Header = (\<lambda>k. None), Cookies = (\<lambda>k. Inl ErrNoCookie)\<rparr>"

definition req_bearer :: "string \<Rightarrow> request" where
  "req_bearer h =
     \<lparr>Body = [], Vars = (\<lambda>k. None), Form = (\<lambda>k. None),
      Header = (\<lambda>k. None)(''Authorization'' \<mapsto> h), Cookies = (\<lambda>k. Inl ErrNoCookie)\<rparr>"

definition req_cookie :: "string \<Rightarrow> request" where
  "req_cookie v =
     \<lparr>Body = [], Vars = (\<lambda>k. None), Form = (\<lambda>k. None), Header = (\<lambda>k. None),
      Cookies = (\<lambda>k. if k = ''passwall_token''
                     then Inr \<lparr>cookie_Name = ''passwall_token'', cookie_Value = v\<rparr>
                     else Inl ErrNoCookie)\<rparr>"




text \<open>The same environment with a mailer that fails.\<close>

definition env_mail_down :: env where
  "env_mail_down = env0\<lparr>SendMail := (\<lambda>fromName to subject body. Some ''smtp: connection refused'')\<rparr>"

section \<open>Properties\<close>

subsection \<open>The decimal string of a code\<close>





lemma Itoa_123456: "Itoa 123456 = ''123456''"
  by (simp add: Itoa_def format_digits.simps digit_char_def)

subsection \<open>What the code-request handlers do once the user check has passed\<close>

lemma CreateCode_issue:
  assumes "DecodeAuthEmail s (Body r) = Some signup"
      and "Users_FindByEmail s (ae_Email signup) = Inl e"
  shows "cache (snd (CreateCode s r w)) =
           (cache w)(ae_Email signup \<mapsto> StringValue (Itoa (Intn s 900000 + 100000)))"
    and "trace (snd (CreateCode s r w)) =
           trace w @ [Call_Set (ae_Email signup) (StringValue (Itoa (Intn s 900000 + 100000))),
                      Call_SendMail ''Passwall Verification Code'' (ae_Email signup)
                        ''Passwall Email Verification''
                        (''Passwall verification code: '' @ Itoa (Intn s 900000 + 100000))]"
    and "fst (CreateCode s r w) =
           (case SendMail s ''Passwall Verification Code'' (ae_Email signup)
                   ''Passwall Email Verification''
                   (''Passwall verification code: '' @ Itoa (Intn s 900000 + 100000)) of
              Some err \<Rightarrow> RespondWithError StatusBadRequest ''Couldn't send email''
            | None \<Rightarrow> RespondWithJSON StatusOK (Response StatusOK (Success s) codeSuccess))"
  using assms by (simp_all add: CreateCode_def c_Set_def call_def Let_def split: option.split)

lemma CreateDeleteCode_issue:
  assumes "DecodeAuthEmail s (Body r) = Some signup"
      and "Users_FindByEmail s (ae_Email signup) = Inr u"
  shows "cache (snd (CreateDeleteCode s r w)) =
           (cache w)(ae_Email signup \<mapsto> StringValue (Itoa (Intn s 900000 + 100000)))"
    and "trace (snd (CreateDeleteCode s r w)) =
           trace w @ [Call_Set (ae_Email signup) (StringValue (Itoa (Intn s 900000 + 100000))),
                      Call_SendMail ''Passwall user deletion Code'' (ae_Email signup)
                        ''Passwall User Deletion Verification''
                        (''Passwall user deletion code: '' @ Itoa (Intn s 900000 + 100000))]"
    and "fst (CreateDeleteCode s r w) =
           (case SendMail s ''Passwall user deletion Code'' (ae_Email signup)
                   ''Passwall User Deletion Verification''
                   (''Passwall user deletion code: '' @ Itoa (Intn s 900000 + 100000)) of
              Some err \<Rightarrow> RespondWithError StatusBadRequest ''Couldn't send email''
            | None \<Rightarrow> RespondWithJSON StatusOK (Response StatusOK (Success s) codeSuccess))"
  using assms
  by (simp_all add: CreateDeleteCode_def c_Set_def call_def Let_def split: option.split)

subsection \<open>The sample environment, field by field\<close>

lemma env0_sel:
  "DecodeAuthEmail env0 b = Some \<lparr>ae_Email = b\<rparr>"
  "Users_FindByEmail env0 ''a@x.com'' = Inl ''record not found''"
  "Users_FindByEmail env0 ''b@x.com'' = Inr user_b"
  "Intn env0 n = 23456"
  "SendMail env0 a b c d = None"
  "Success env0 = ''Success''"
  by (simp_all add: env0_def)

lemma env_mail_down_sel:
  "DecodeAuthEmail env_mail_down b = Some \<lparr>ae_Email = b\<rparr>"
  "Users_FindByEmail env_mail_down ''a@x.com'' = Inl ''record not found''"
  "Users_FindByEmail env_mail_down ''b@x.com'' = Inr user_b"
  "Intn env_mail_down n = 23456"
  "SendMail env_mail_down a b c d = Some ''smtp: connection refused''"
  by (simp_all add: env_mail_down_def env0_def)

subsection \<open>The code-request flows\<close>




text \<open>
  Claim C9. In CreateCode and CreateDeleteCode the cache entry of the submitted email is
  overwritten with the new code before the mail is sent (the trace grows by the cache
  write, then the mail). When the mailer fails, the handler answers with the dispatch error
  and the new code stays in the cache, in place of whatever the entry held before.
\<close>

theorem dispatch_failure_keeps_new_code:
  assumes "DecodeAuthEmail s (Body r) = Some signup"
  shows "(\<forall>e err. Users_FindByEmail s (ae_Email signup) = Inl e
            \<and> SendMail s ''Passwall Verification Code'' (ae_Email signup)
                ''Passwall Email Verification''
                (''Passwall verification code: '' @ Itoa (Intn s 900000 + 100000)) = Some err
          \<longrightarrow> fst (CreateCode s r w) = RespondWithError StatusBadRequest ''Couldn't send email''
            \<and> cache (snd (CreateCode s r w)) (ae_Email signup) =
                Some (StringValue (Itoa (Intn s 900000 + 100000)))
            \<and> trace (snd (CreateCode s r w)) =
                trace w @
                [Call_Set (ae_Email signup) (StringValue (Itoa (Intn s 900000 + 100000))),
                 Call_SendMail ''Passwall Verification Code'' (ae_Email signup)
                   ''Passwall Email Verification''
                   (''Passwall verification code: '' @ Itoa (Intn s 900000 + 100000))])
       \<and> (\<forall>u err. Users_FindByEmail s (ae_Email signup) = Inr u
            \<and> SendMail s ''Passwall user deletion Code'' (ae_Email signup)
                ''Passwall User Deletion Verification''
                (''Passwall user deletion code: '' @ Itoa (Intn s 900000 + 100000)) = Some err
          \<longrightarrow> fst (CreateDeleteCode s r w) =
                RespondWithError StatusBadRequest ''Couldn't send email''
            \<and> cache (snd (CreateDeleteCode s r w)) (ae_Email signup) =
                Some (StringValue (Itoa (Intn s 900000 + 100000)))
            \<and> trace (snd (CreateDeleteCode s r w)) =
                trace w @
                [Call_Set (ae_Email signup) (StringValue (Itoa (Intn s 900000 + 100000))),
                 Call_SendMail ''Passwall user deletion Code'' (ae_Email signup)
                   ''Passwall User Deletion Verification''
                   (''Passwall user deletion code: '' @ Itoa (Intn s 900000 + 100000))])"
  using assms by (simp add: CreateCode_issue CreateDeleteCode_issue)

theorem dispatch_failure_keeps_new_code_witness:
  "cache (world_with ''a@x.com'' ''verified'') ''a@x.com'' = Some (StringValue ''verified'')
   \<and> fst (CreateCode env_mail_down (req0 ''a@x.com'') (world_with ''a@x.com'' ''verified'')) =
       RespondWithError StatusBadRequest ''Couldn't send email''
   \<and> cache (snd (CreateCode env_mail_down (req0 ''a@x.com'')
                   (world_with ''a@x.com'' ''verified''))) ''a@x.com'' =
       Some (StringValue ''123456'')
   \<and> trace (snd (CreateCode env_mail_down (req0 ''a@x.com'')
                   (world_with ''a@x.com'' ''verified''))) =
       [Call_Set ''a@x.com'' (StringValue ''123456''),
        Call_SendMail ''Passwall Verification Code'' ''a@x.com'' ''Passwall Email Verification''
          ''Passwall verification code: 123456'']
   \<and> fst (CreateDeleteCode env_mail_down (req0 ''b@x.com'') (world_with ''b@x.com'' ''654321'')) =
       RespondWithError StatusBadRequest ''Couldn't send email''
   \<and> cache (snd (CreateDeleteCode env_mail_down (req0 ''b@x.com'')
                   (world_with ''b@x.com'' ''654321''))) ''b@x.com'' =
       Some (StringValue ''123456'')"
  using dispatch_failure_keeps_new_code
          [of env_mail_down "req0 ''a@x.com''" "\<lparr>ae_Email = ''a@x.com''\<rparr>"
              "world_with ''a@x.com'' ''verified''"]
        dispatch_failure_keeps_new_code
          [of env_mail_down "req0 ''b@x.com''" "\<lparr>ae_Email = ''b@x.com''\<rparr>"
              "world_with ''b@x.com'' ''654321''"]
  by (simp add: env_mail_down_sel req0_def world_with_def Itoa_123456)

lemma code_request_creates_no_user:
  "filter is_CreateUser (trace (snd (CreateCode s r w))) = filter is_CreateUser (trace w)"
  "filter is_CreateUser (trace (snd (CreateDeleteCode s r w))) = filter is_CreateUser (trace w)"
  by (simp_all add: CreateCode_def CreateDeleteCode_def c_Set_def call_def Let_def
        split: option.split sum.split)

text \<open>
  Claim C6, as amended. A failure to dispatch the verification mail is answered with
  400 Bad Request and the message \<open>Couldn't send email\<close>, in both code-request flows, and
  the flow makes no call that creates a user.
\<close>

theorem dispatch_failure_is_bad_request:
  assumes "DecodeAuthEmail s (Body r) = Some signup"
  shows "(\<forall>e err. Users_FindByEmail s (ae_Email signup) = Inl e
            \<and> SendMail s ''Passwall Verification Code'' (ae_Email signup)
                ''Passwall Email Verification''
                (''Passwall verification code: '' @ Itoa (Intn s 900000 + 100000)) = Some err
          \<longrightarrow> fst (CreateCode s r w) = RespondWithError StatusBadRequest ''Couldn't send email''
            \<and> filter is_CreateUser (trace (snd (CreateCode s r w))) =
                filter is_CreateUser (trace w))
       \<and> (\<forall>u err. Users_FindByEmail s (ae_Email signup) = Inr u
            \<and> SendMail s ''Passwall user deletion Code'' (ae_Email signup)
                ''Passwall User Deletion Verification''
                (''Passwall user deletion code: '' @ Itoa (Intn s 900000 + 100000)) = Some err
          \<longrightarrow> fst (CreateDeleteCode s r w) =
                RespondWithError StatusBadRequest ''Couldn't send email''
            \<and> filter is_CreateUser (trace (snd (CreateDeleteCode s r w))) =
                filter is_CreateUser (trace w))"
  using assms by (simp add: CreateCode_issue CreateDeleteCode_issue code_request_creates_no_user)

theorem dispatch_failure_is_bad_request_witness:
  "fst (CreateCode env_mail_down (req0 ''a@x.com'') world0) =
     RespondWithError StatusBadRequest ''Couldn't send email''
   \<and> filter is_CreateUser (trace (snd (CreateCode env_mail_down (req0 ''a@x.com'') world0))) = []
   \<and> fst (CreateDeleteCode env_mail_down (req0 ''b@x.com'') world0) =
     RespondWithError StatusBadRequest ''Couldn't send email''
   \<and> filter is_CreateUser
       (trace (snd (CreateDeleteCode env_mail_down (req0 ''b@x.com'') world0))) = []"
  using dispatch_failure_is_bad_request
          [of env_mail_down "req0 ''a@x.com''" "\<lparr>ae_Email = ''a@x.com''\<rparr>" world0]
        dispatch_failure_is_bad_request
          [of env_mail_down "req0 ''b@x.com''" "\<lparr>ae_Email = ''b@x.com''\<rparr>" world0]
  by (simp add: env_mail_down_sel req0_def world0_def)

text \<open>
  Claim C6, as stated, fails: with a mailer that refuses the message, CreateCode answers
  with status 400, which is not a 500-class status.
\<close>

theorem dispatch_failure_not_server_error:
  "SendMail env_mail_down ''Passwall Verification Code'' ''a@x.com''
     ''Passwall Email Verification'' ''Passwall verification code: 123456'' =
     Some ''smtp: connection refused''
   \<and> status_code (fst (CreateCode env_mail_down (req0 ''a@x.com'') world0)) = Some 400
   \<and> \<not> server_error_class 400"
  by (simp add: CreateCode_def env_mail_down_sel req0_def world0_def c_Set_def call_def
        Let_def server_error_class_def)


subsection \<open>The verification gate and the state errors\<close>

lemma isMailVerified_None:
  "isMailVerified w email = None \<longleftrightarrow> cache w email = Some (StringValue ''verified'')"
  by (simp add: isMailVerified_def c_Get_def split: option.split cache_value.split)

lemma Signup_not_verified:
  assumes "DecodeUserSignup s (Body r) = Decoded u"
      and "cache w (signup_Email u) \<noteq> Some (StringValue ''verified'')"
  shows "Signup s r w = (RespondWithError StatusUnauthorized ''Email is not verified'', w)"
proof -
  from assms(2) obtain err where "isMailVerified w (signup_Email u) = Some err"
    using isMailVerified_None [of w "signup_Email u"] by (cases "isMailVerified w (signup_Email u)") auto
  with assms(1) show ?thesis by (simp add: Signup_def)
qed

lemma RecoverDelete_not_verified:
  assumes "cache w (get_or_empty (Vars r) ''email'') \<noteq> Some (StringValue ''verified'')"
  shows "RecoverDelete s r w = (RespondWithError StatusUnauthorized ''Email is not verified'', w)"
proof -
  from assms obtain err where "isMailVerified w (get_or_empty (Vars r) ''email'') = Some err"
    using isMailVerified_None [of w "get_or_empty (Vars r) ''email''"]
    by (cases "isMailVerified w (get_or_empty (Vars r) ''email'')") auto
  then show ?thesis by (simp add: RecoverDelete_def Let_def)
qed





lemma env0_sel2:
  "DecodeUserSignup env0 b = Decoded \<lparr>signup_Email = b\<rparr>"
  "ValidateUserSignup env0 u = None"
  "ConvertUserDTO env0 u = \<lparr>dto_Email = signup_Email u\<rparr>"
  "CreateUser env0 d = Inr \<lparr>user_ID = 8, user_UUID = ''uuid-a'', user_Name = ''A'',
                   user_Email = dto_Email d, user_Schema = ''user8''\<rparr>"
  "Users_Delete env0 i sc = None"
  "email_fromName env0 = ''PassWall''"
  "email_fromEmail env0 = ''admin@x.com''"
  by (simp_all add: env0_def)

text \<open>
  Claim C1. Signup and RecoverDelete go past the verification check only when the cache
  entry of the email is the string \<open>verified\<close>. When the entry is absent or holds anything
  else, the handler answers 401 \<open>Email is not verified\<close> and returns the world as it was:
  no call at all has been made. Conversely, a call that creates (Signup) or deletes
  (RecoverDelete) a user appears in the trace only when the entry was \<open>verified\<close>.
\<close>

theorem verified_gate:
  "(DecodeUserSignup s (Body r) = Decoded u
      \<and> cache w (signup_Email u) \<noteq> Some (StringValue ''verified'')
    \<longrightarrow> Signup s r w = (RespondWithError StatusUnauthorized ''Email is not verified'', w))
 \<and> (cache w (get_or_empty (Vars r) ''email'') \<noteq> Some (StringValue ''verified'')
    \<longrightarrow> RecoverDelete s r w = (RespondWithError StatusUnauthorized ''Email is not verified'', w))
 \<and> (filter is_CreateUser (trace (snd (Signup s r w))) \<noteq> filter is_CreateUser (trace w)
    \<longrightarrow> (\<exists>u. DecodeUserSignup s (Body r) = Decoded u
            \<and> cache w (signup_Email u) = Some (StringValue ''verified'')))
 \<and> (filter is_Delete (trace (snd (RecoverDelete s r w))) \<noteq> filter is_Delete (trace w)
    \<longrightarrow> cache w (get_or_empty (Vars r) ''email'') = Some (StringValue ''verified''))"
proof (intro conjI impI)
  assume "DecodeUserSignup s (Body r) = Decoded u
      \<and> cache w (signup_Email u) \<noteq> Some (StringValue ''verified'')"
  then show "Signup s r w = (RespondWithError StatusUnauthorized ''Email is not verified'', w)"
    by (simp add: Signup_not_verified)
next
  assume "cache w (get_or_empty (Vars r) ''email'') \<noteq> Some (StringValue ''verified'')"
  then show "RecoverDelete s r w = (RespondWithError StatusUnauthorized ''Email is not verified'', w)"
    by (rule RecoverDelete_not_verified)
next
  assume changed: "filter is_CreateUser (trace (snd (Signup s r w))) \<noteq> filter is_CreateUser (trace w)"
  show "\<exists>u. DecodeUserSignup s (Body r) = Decoded u
            \<and> cache w (signup_Email u) = Some (StringValue ''verified'')"
  proof (cases "DecodeUserSignup s (Body r)")
    case DecodeError
    with changed show ?thesis by (simp add: Signup_def)
  next
    case DecodedNil
    with changed show ?thesis by (simp add: Signup_def)
  next
    case (Decoded u)
    show ?thesis
    proof (cases "cache w (signup_Email u) = Some (StringValue ''verified'')")
      case True
      with Decoded show ?thesis by simp
    next
      case False
      with Decoded changed show ?thesis by (simp add: Signup_not_verified)
    qed
  qed
next
  assume changed: "filter is_Delete (trace (snd (RecoverDelete s r w))) \<noteq> filter is_Delete (trace w)"
  show "cache w (get_or_empty (Vars r) ''email'') = Some (StringValue ''verified'')"
  proof (rule ccontr)
    assume "cache w (get_or_empty (Vars r) ''email'') \<noteq> Some (StringValue ''verified'')"
    with changed show False by (simp add: RecoverDelete_not_verified)
  qed
qed

theorem verified_gate_witness:
  "Signup env0 (req0 ''a@x.com'') world0 =
     (RespondWithError StatusUnauthorized ''Email is not verified'', world0)
   \<and> RecoverDelete env0 (req_delete ''b@x.com'') (world_with ''b@x.com'' ''123456'') =
     (RespondWithError StatusUnauthorized ''Email is not verified'',
      world_with ''b@x.com'' ''123456'')
   \<and> filter is_CreateUser
       (trace (snd (Signup env0 (req0 ''a@x.com'') (world_with ''a@x.com'' ''verified'')))) =
       [Call_CreateUser \<lparr>dto_Email = ''a@x.com''\<rparr>]
   \<and> cache (world_with ''a@x.com'' ''verified'') ''a@x.com'' = Some (StringValue ''verified'')
   \<and> filter is_Delete
       (trace (snd (RecoverDelete env0 (req_delete ''b@x.com'')
                      (world_with ''b@x.com'' ''verified'')))) =
       [Call_Delete 7 ''user7'']
   \<and> cache (world_with ''b@x.com'' ''verified'') ''b@x.com'' = Some (StringValue ''verified'')"
  using verified_gate [of env0 "req0 ''a@x.com''" "\<lparr>signup_Email = ''a@x.com''\<rparr>" world0]
        verified_gate [of env0 "req_delete ''b@x.com''" _ "world_with ''b@x.com'' ''123456''"]
        verified_gate [of env0 "req0 ''a@x.com''" _ "world_with ''a@x.com'' ''verified''"]
        verified_gate [of env0 "req_delete ''b@x.com''" _ "world_with ''b@x.com'' ''verified''"]
  by (simp add: Signup_def RecoverDelete_def isMailVerified_def c_Get_def call_def
        notifyAdminEmail_def Let_def get_or_empty_def env0_sel env0_sel2 req0_def req_delete_def
        world0_def world_with_def user_b_def)

text \<open>
  Claim C2. VerifyCode, for the email of the form and the code of the route: no cache
  entry gives the code-not-found error; a cached string that differs from the submitted
  code gives the code-mismatch error and leaves the world as it was; a cached string equal
  to the submitted code gives the success response and overwrites the entry with
  \<open>verified\<close>.
\<close>

theorem VerifyCode_outcomes:
  "(cache w (get_or_empty (Form r) ''email'') = None
    \<longrightarrow> VerifyCode s r w = (RespondWithError StatusBadRequest ''Code couldn't found!'', w))
 \<and> (cache w (get_or_empty (Form r) ''email'') = Some (StringValue cached)
      \<and> get_or_empty (Vars r) ''code'' \<noteq> cached
    \<longrightarrow> VerifyCode s r w = (RespondWithError StatusBadRequest ''Code doesn't match!'', w))
 \<and> (cache w (get_or_empty (Form r) ''email'') = Some (StringValue cached)
      \<and> get_or_empty (Vars r) ''code'' = cached
    \<longrightarrow> fst (VerifyCode s r w) =
          RespondWithJSON StatusOK (Response StatusOK (Success s) verifySuccess)
      \<and> cache (snd (VerifyCode s r w)) =
          (cache w)(get_or_empty (Form r) ''email'' \<mapsto> StringValue ''verified''))"
  by (simp add: VerifyCode_def c_Get_def c_Set_def Let_def)

theorem VerifyCode_outcomes_witness:
  "VerifyCode env0 (req_verify ''a@x.com'' ''123456'') world0 =
     (RespondWithError StatusBadRequest ''Code couldn't found!'', world0)
   \<and> VerifyCode env0 (req_verify ''a@x.com'' ''000000'') (world_with ''a@x.com'' ''123456'') =
     (RespondWithError StatusBadRequest ''Code doesn't match!'', world_with ''a@x.com'' ''123456'')
   \<and> fst (VerifyCode env0 (req_verify ''a@x.com'' ''123456'') (world_with ''a@x.com'' ''123456'')) =
     RespondWithJSON StatusOK (Response StatusOK ''Success'' verifySuccess)
   \<and> cache (snd (VerifyCode env0 (req_verify ''a@x.com'' ''123456'')
                   (world_with ''a@x.com'' ''123456''))) ''a@x.com'' =
     Some (StringValue ''verified'')"
  using VerifyCode_outcomes
          [where s = env0 and r = "req_verify ''a@x.com'' ''123456''" and w = world0]
        VerifyCode_outcomes
          [where s = env0 and r = "req_verify ''a@x.com'' ''000000''"
             and w = "world_with ''a@x.com'' ''123456''" and cached = "''123456''"]
        VerifyCode_outcomes
          [where s = env0 and r = "req_verify ''a@x.com'' ''123456''"
             and w = "world_with ''a@x.com'' ''123456''" and cached = "''123456''"]
  by (simp add: get_or_empty_def req_verify_def world0_def world_with_def env0_sel)






subsection \<open>Signin and RefreshToken\<close>





text \<open>
  The branches of RefreshToken before the user lookup: a missing cookie, a parse error
  that is the sentinel, a parse error that is a validation error, an unknown user.
\<close>

lemma RefreshToken_no_cookie:
  "Cookies r ''passwall_token'' = Inl ErrNoCookie
   \<Longrightarrow> RefreshToken s r w = (WriteHeader StatusUnauthorized, w)"
  by (simp add: RefreshToken_def)

lemma RefreshToken_sentinel:
  "Cookies r ''passwall_token'' = Inr c
   \<Longrightarrow> ParseWithClaims s (cookie_Value c) (jwtKey s) = Inl ErrSignatureInvalid
   \<Longrightarrow> RefreshToken s r w = (WriteHeader StatusUnauthorized, w)"
  by (simp add: RefreshToken_def Let_def)

lemma RefreshToken_validation_error:
  "Cookies r ''passwall_token'' = Inr c
   \<Longrightarrow> ParseWithClaims s (cookie_Value c) (jwtKey s) = Inl (ValidationError flags)
   \<Longrightarrow> RefreshToken s r w = (WriteHeader StatusBadRequest, w)"
  by (simp add: RefreshToken_def Let_def)

lemma RefreshToken_invalid_user:
  "Cookies r ''passwall_token'' = Inr c
   \<Longrightarrow> ParseWithClaims s (cookie_Value c) (jwtKey s) = Inr tkn
   \<Longrightarrow> tkn_Valid tkn
   \<Longrightarrow> Users_FindByUUID s (claims_UserUUID (tkn_claims tkn)) = Inl err
   \<Longrightarrow> RefreshToken s r w = (RespondWithError StatusUnauthorized invalidUser, w)"
  by (simp add: RefreshToken_def Let_def)

lemma RefreshToken_token_only_if:
  assumes "fst (RefreshToken s r w) = RespondWithToken st ck body"
  shows "\<exists>c tkn user. Cookies r ''passwall_token'' = Inr c
           \<and> ParseWithClaims s (cookie_Value c) (jwtKey s) = Inr tkn
           \<and> tkn_Valid tkn
           \<and> Users_FindByUUID s (claims_UserUUID (tkn_claims tkn)) = Inr user
           \<and> RefreshTokenWithClaims s user (tkn_claims tkn) = Inr ck"
  using assms
  by (auto simp add: RefreshToken_def Let_def
        split: prod.splits sum.splits if_splits returned.splits)

lemma env0_sel3:
  "jwtKey env0 = ''secret''"
  "ParseWithClaims env0 ''t1'' k =
     Inr \<lparr>tkn_Valid = True, tkn_claims = \<lparr>claims_UserUUID = ''uuid-b''\<rparr>\<rparr>"
  "ParseWithClaims env0 ''forged'' k = Inl (ValidationError ValidationErrorSignatureInvalid)"
  "Users_FindByUUID env0 ''uuid-b'' = Inr user_b"
  "Users_FindByUUID env0 ''uuid-z'' = Inl ''record not found''"
  "RefreshTokenWithClaims env0 u cl = Inr \<lparr>cookie_Name = ''passwall_token'', cookie_Value = ''t2''\<rparr>"
  "CreateToken env0 u = Inr (\<lparr>cookie_Name = ''passwall_token'', cookie_Value = ''t1''\<rparr>, ''key'')"
  "Subscriptions_FindByEmail env0 e = (None, Some ''record not found'')"
  "ToUserDTO env0 u = \<lparr>dto_Email = user_Email u\<rparr>"
  "ToSubscriptionAuthDTO env0 sb = Returns (map_option (\<lambda>sb. \<lparr>sadto_Email = sub_Email sb\<rparr>) sb)"
  "DecodeAuthLoginDTO env0 b = Some \<lparr>login_Email = b, login_MasterPassword = ''pw''\<rparr>"
  "ValidateAuthLoginDTO env0 l = None"
  "Users_FindByCredentials env0 ''b@x.com'' ''pw'' = Inr user_b"
  by (simp_all add: env0_def)




text \<open>
  Claim C3. The claim asks 401 for a token whose signature is invalid, and lines 314 to
  318 are written to give it. The handler does not: for such a token the parser returns
  a validation error with the bit \<open>ValidationErrorSignatureInvalid\<close>, not the sentinel
  that line 314 compares with, so the comparison fails and line 319 answers 400, as it
  does for an expired or malformed token.
\<close>

theorem RefreshToken_forged_signature_is_bad_request:
  "Cookies (req_cookie ''forged'') ''passwall_token'' =
     Inr \<lparr>cookie_Name = ''passwall_token'', cookie_Value = ''forged''\<rparr>
   \<and> ParseWithClaims env0 ''forged'' (jwtKey env0) =
       Inl (ValidationError ValidationErrorSignatureInvalid)
   \<and> ValidationError ValidationErrorSignatureInvalid \<noteq> ErrSignatureInvalid
   \<and> RefreshToken env0 (req_cookie ''forged'') world0 = (WriteHeader StatusBadRequest, world0)
   \<and> status_code (fst (RefreshToken env0 (req_cookie ''forged'') world0)) \<noteq>
       Some StatusUnauthorized"
  using RefreshToken_validation_error
          [where s = env0 and r = "req_cookie ''forged''" and w = world0
             and c = "\<lparr>cookie_Name = ''passwall_token'', cookie_Value = ''forged''\<rparr>"
             and flags = ValidationErrorSignatureInvalid]
  by (simp add: req_cookie_def env0_sel3)





subsection \<open>CheckToken\<close>

lemma CheckToken_with_token:
  assumes "length (Split (get_or_empty (Header r) ''Authorization'') CHR '' '') = 2"
      and "Split (get_or_empty (Header r) ''Authorization'') CHR '' '' ! 1 = tokenStr"
      and "tokenStr \<noteq> []"
  shows "CheckToken s r w =
           (case TokenValid s tokenStr of
              Inl err \<Rightarrow> (RespondWithError StatusUnauthorized invalidToken, w)
            | Inr token \<Rightarrow>
                (case token_Claims token of
                   OtherClaims \<Rightarrow> (Panic, w)
                 | MapClaims claims \<Rightarrow>
                     (case claims ''user_uuid'' of
                        None \<Rightarrow> (Panic, w)
                      | Some ClaimOther \<Rightarrow> (Panic, w)
                      | Some (ClaimString userUUID) \<Rightarrow>
                          (case Users_FindByUUID s userUUID of
                             Inl err \<Rightarrow> (RespondWithError StatusUnauthorized invalidUser, w)
                           | Inr user \<Rightarrow>
                               (RespondWithJSON StatusOK (UserDTOTable user), w)))))"
  using assms by (simp add: CheckToken_def Let_def)

lemma CheckToken_no_token:
  assumes "length (Split (get_or_empty (Header r) ''Authorization'') CHR '' '') \<noteq> 2
           \<or> Split (get_or_empty (Header r) ''Authorization'') CHR '' '' ! 1 = []"
  shows "CheckToken s r w = (RespondWithError StatusUnauthorized noToken, w)"
  using assms by (auto simp add: CheckToken_def Let_def)

text \<open>
  Claim C8. When the Authorization header does not split at spaces into exactly two
  parts, CheckToken answers with the no-token 401 error. When it splits into exactly two
  parts, the second part is the token string: empty, it is again the no-token error;
  otherwise it is what \<^verbatim>\<open>app.TokenValid\<close> receives and what decides the response.
\<close>

theorem CheckToken_bearer_split:
  "(length (Split (get_or_empty (Header r) ''Authorization'') CHR '' '') \<noteq> 2
    \<longrightarrow> CheckToken s r w = (RespondWithError StatusUnauthorized noToken, w))
 \<and> (length (Split (get_or_empty (Header r) ''Authorization'') CHR '' '') = 2
      \<and> Split (get_or_empty (Header r) ''Authorization'') CHR '' '' ! 1 = []
    \<longrightarrow> CheckToken s r w = (RespondWithError StatusUnauthorized noToken, w))
 \<and> (length (Split (get_or_empty (Header r) ''Authorization'') CHR '' '') = 2
      \<and> Split (get_or_empty (Header r) ''Authorization'') CHR '' '' ! 1 = tokenStr
      \<and> tokenStr \<noteq> []
    \<longrightarrow> CheckToken s r w =
          (case TokenValid s tokenStr of
             Inl err \<Rightarrow> (RespondWithError StatusUnauthorized invalidToken, w)
           | Inr token \<Rightarrow>
               (case token_Claims token of
                  OtherClaims \<Rightarrow> (Panic, w)
                | MapClaims claims \<Rightarrow>
                    (case claims ''user_uuid'' of
                       None \<Rightarrow> (Panic, w)
                     | Some ClaimOther \<Rightarrow> (Panic, w)
                     | Some (ClaimString userUUID) \<Rightarrow>
                         (case Users_FindByUUID s userUUID of
                            Inl err \<Rightarrow> (RespondWithError StatusUnauthorized invalidUser, w)
                          | Inr user \<Rightarrow>
                              (RespondWithJSON StatusOK (UserDTOTable user), w))))))"
  by (simp add: CheckToken_no_token CheckToken_with_token)

lemma env0_tokens:
  "TokenValid env0 ''good'' =
     Inr \<lparr>token_Claims = MapClaims ((\<lambda>k. None)(''user_uuid'' \<mapsto> ClaimString ''uuid-b''))\<rparr>"
  "TokenValid env0 ''nouuid'' = Inr \<lparr>token_Claims = MapClaims (\<lambda>k. None)\<rparr>"
  "TokenValid env0 ''bad'' = Inl ''token invalid''"
  by (simp_all add: env0_def)

theorem CheckToken_bearer_split_witness:
  "Split ''good'' CHR '' '' = [''good'']
   \<and> CheckToken env0 (req_bearer ''good'') world0 =
       (RespondWithError StatusUnauthorized noToken, world0)
   \<and> Split ''Bearer good extra'' CHR '' '' = [''Bearer'', ''good'', ''extra'']
   \<and> CheckToken env0 (req_bearer ''Bearer good extra'') world0 =
       (RespondWithError StatusUnauthorized noToken, world0)
   \<and> Split ''Bearer '' CHR '' '' = [''Bearer'', []]
   \<and> CheckToken env0 (req_bearer ''Bearer '') world0 =
       (RespondWithError StatusUnauthorized noToken, world0)
   \<and> Split ''Bearer good'' CHR '' '' = [''Bearer'', ''good'']
   \<and> CheckToken env0 (req_bearer ''Bearer good'') world0 =
       (RespondWithJSON StatusOK (UserDTOTable user_b), world0)
   \<and> Split ''Bearer bad'' CHR '' '' = [''Bearer'', ''bad'']
   \<and> CheckToken env0 (req_bearer ''Bearer bad'') world0 =
       (RespondWithError StatusUnauthorized invalidToken, world0)"
  using CheckToken_bearer_split [where s = env0 and r = "req_bearer ''good''" and w = world0]
        CheckToken_bearer_split
          [where s = env0 and r = "req_bearer ''Bearer good extra''" and w = world0]
        CheckToken_bearer_split [where s = env0 and r = "req_bearer ''Bearer ''" and w = world0]
        CheckToken_bearer_split
          [where s = env0 and r = "req_bearer ''Bearer good''" and w = world0
             and tokenStr = "''good''"]
        CheckToken_bearer_split
          [where s = env0 and r = "req_bearer ''Bearer bad''" and w = world0
             and tokenStr = "''bad''"]
  by (simp add: get_or_empty_def req_bearer_def env0_tokens env0_sel3)

text \<open>
  Claim C10. For a request whose token passes validation, CheckToken panics exactly when
  the token's claims are not a map holding a string under \<open>user_uuid\<close>; in no such
  request does it answer with the no-token or the invalid-token error.
\<close>

theorem CheckToken_claim_assertions:
  assumes "length (Split (get_or_empty (Header r) ''Authorization'') CHR '' '') = 2"
      and "Split (get_or_empty (Header r) ''Authorization'') CHR '' '' ! 1 = tokenStr"
      and "tokenStr \<noteq> []"
      and "TokenValid s tokenStr = Inr token"
  shows "(fst (CheckToken s r w) = Panic) =
           (\<not> (\<exists>claims userUUID. token_Claims token = MapClaims claims
                  \<and> claims ''user_uuid'' = Some (ClaimString userUUID)))
       \<and> fst (CheckToken s r w) \<noteq> RespondWithError StatusUnauthorized noToken
       \<and> fst (CheckToken s r w) \<noteq> RespondWithError StatusUnauthorized invalidToken"
  using assms
  by (auto simp add: CheckToken_with_token noToken_def invalidToken_def invalidUser_def
        split: token_claims.splits option.splits claim_value.splits sum.splits)

theorem CheckToken_claim_assertions_witness:
  "TokenValid env0 ''nouuid'' = Inr \<lparr>token_Claims = MapClaims (\<lambda>k. None)\<rparr>
   \<and> fst (CheckToken env0 (req_bearer ''Bearer nouuid'') world0) = Panic
   \<and> fst (CheckToken env0 (req_bearer ''Bearer good'') world0) =
       RespondWithJSON StatusOK (UserDTOTable user_b)"
  using CheckToken_claim_assertions
          [where s = env0 and r = "req_bearer ''Bearer nouuid''" and w = world0
             and tokenStr = "''nouuid''" and token = "\<lparr>token_Claims = MapClaims (\<lambda>k. None)\<rparr>"]
        CheckToken_claim_assertions
          [where s = env0 and r = "req_bearer ''Bearer good''" and w = world0
             and tokenStr = "''good''"
             and token = "\<lparr>token_Claims =
                  MapClaims ((\<lambda>k. None)(''user_uuid'' \<mapsto> ClaimString ''uuid-b''))\<rparr>"]
  by (simp add: CheckToken_def Let_def get_or_empty_def req_bearer_def env0_tokens env0_sel3)


end
